theory Spec2Isabelle
  imports Main
begin

section \<open>Python values used by the program\<close>

text \<open>
  The program is one Python module, \<^verbatim>\<open>OOP_chess.py\<close>. Its figures are objects
  with mutable attributes, its grid is a list of row lists, and its history keeps row
  lists too, so objects and row lists live in an explicit store and the grid holds
  addresses. Every raise of the source is a value of \<open>error\<close>; \<open>OutOfFuel\<close> is not
  a Python exception: it marks a \<^verbatim>\<open>while\<close> loop of the model that has used up
  its iteration budget (see \<open>is_path_clear_never_out_of_fuel\<close>).
\<close>

datatype error = IndexError | TypeError | AttributeError | OutOfFuel

text \<open>\<^verbatim>\<open>xs[i]\<close>: a negative index counts from the end, anything else out of range raises.\<close>

definition py_index :: "'a list \<Rightarrow> int \<Rightarrow> error + 'a" where
  "py_index xs i =
     (let n = int (length xs)
      in if 0 \<le> i \<and> i < n then Inr (xs ! nat i)
         else if - n \<le> i \<and> i < 0 then Inr (xs ! nat (n + i))
         else Inl IndexError)"

text \<open>\<^verbatim>\<open>xs[i] = v\<close>, with the same index rule.\<close>

definition py_store :: "'a list \<Rightarrow> int \<Rightarrow> 'a \<Rightarrow> error + 'a list" where
  "py_store xs i v =
     (let n = int (length xs)
      in if 0 \<le> i \<and> i < n then Inr (xs[nat i := v])
         else if - n \<le> i \<and> i < 0 then Inr (xs[nat (n + i) := v])
         else Inl IndexError)"

text \<open>Sequencing: the first raise ends the computation.\<close>

definition and_then :: "error + 'a \<Rightarrow> ('a \<Rightarrow> error + 'b) \<Rightarrow> error + 'b" where
  "and_then m f = (case m of Inl e \<Rightarrow> Inl e | Inr v \<Rightarrow> f v)"

section \<open>Figures\<close>

text \<open>
  The colour is the string \<^verbatim>\<open>'white'\<close> or \<^verbatim>\<open>'black'\<close>: every constructor
  call of the module passes one of the two. The class of an object is its \<open>kind\<close>.
  \<^verbatim>\<open>Snake\<close> is a subclass of \<^verbatim>\<open>King\<close>, so \<^verbatim>\<open>isinstance(x, King)\<close> holds of
  both.
\<close>

datatype color = White | Black

datatype kind = Pawn | Rook | Knight | Bishop | Queen | King | Ghost | Snake | CheckersFigure

record figure =
  kind :: kind
  color :: color
  position :: "int \<times> int"
  kill :: bool

definition isinstance_King :: "kind \<Rightarrow> bool" where
  "isinstance_King k = (k = King \<or> k = Snake)"

text \<open>\<^verbatim>\<open>isinstance(x, (Pawn, Rook, Bishop, Knight, King, Queen, Ghost, Snake))\<close>\<close>

definition isinstance_chess :: "kind \<Rightarrow> bool" where
  "isinstance_chess k = (k \<noteq> CheckersFigure)"

definition in_bounds :: "int \<Rightarrow> int \<Rightarrow> bool" where
  "in_bounds nx ny = (0 \<le> nx \<and> nx < 8 \<and> 0 \<le> ny \<and> ny < 8)"

definition CheckersFigure_get_possible_moves :: "figure \<Rightarrow> (int \<times> int) list" where
  "CheckersFigure_get_possible_moves self =
     (case position self of (x, y) \<Rightarrow>
        if color self = White then [(x - 1, y + 1), (x - 1, y - 1)]
        else [(x + 1, y + 1), (x + 1, y - 1)])"

text \<open>Ghost: \<^verbatim>\<open>for i in range(1, 8)\<close> with a \<^verbatim>\<open>break\<close> at the first cell off the board.\<close>

definition Ghost_get_possible_moves :: "figure \<Rightarrow> (int \<times> int) list" where
  "Ghost_get_possible_moves self =
     (case position self of (x, y) \<Rightarrow>
        concat (map (\<lambda>(dx, dy).
                  takeWhile (\<lambda>(nx, ny). in_bounds nx ny)
                    (map (\<lambda>i. (x + dx * i, y + dy * i)) [1..7]))
                [(1, 0), (-1, 0), (0, 1), (0, -1)]))"

text \<open>
  Pawn: the last loop removes from the list it iterates over. Python's list iterator is
  an index that is compared with the current length at every step, and
  \<^verbatim>\<open>remove\<close> deletes the first equal element.
\<close>

function pawn_filter :: "(int \<times> int) list \<Rightarrow> nat \<Rightarrow> (int \<times> int) list" where
  "pawn_filter possible_moves i =
     (if i < length possible_moves
      then (let move = possible_moves ! i
            in if fst move < 0 \<or> fst move \<ge> 8 \<or> snd move < 0 \<or> snd move \<ge> 8
               then pawn_filter (remove1 move possible_moves) (Suc i)
               else pawn_filter possible_moves (Suc i))
      else possible_moves)"
  by pat_completeness auto
termination
  by (relation "measure (\<lambda>(xs, i). length xs - i)") (auto simp: length_remove1)

declare pawn_filter.simps [simp del]

definition Pawn_get_possible_moves :: "figure \<Rightarrow> (int \<times> int) list" where
  "Pawn_get_possible_moves self =
     (case position self of (x, y) \<Rightarrow>
        let first = (if color self = White then [(x - 1, y)] else [(x + 1, y)]);
            second = (if x = 6 \<and> color self = White then [(x - 2, y)]
                      else if x = 1 \<and> color self = Black then [(x + 2, y)]
                      else [])
        in pawn_filter (first @ second) 0)"

definition Rook_get_possible_moves :: "figure \<Rightarrow> (int \<times> int) list" where
  "Rook_get_possible_moves self =
     (case position self of (x, y) \<Rightarrow>
        concat (map (\<lambda>i. (if i \<noteq> x then [(i, y)] else []) @ (if i \<noteq> y then [(x, i)] else []))
                [0..7]))"

definition Knight_get_possible_moves :: "figure \<Rightarrow> (int \<times> int) list" where
  "Knight_get_possible_moves self =
     (case position self of (x, y) \<Rightarrow>
        [(x + 1, y + 2), (x + 2, y + 1), (x + 1, y - 2), (x + 2, y - 1), (x - 1, y + 2),
         (x - 2, y + 1), (x - 2, y - 1), (x - 1, y - 2)])"

text \<open>
  Bishop: \<^verbatim>\<open>while True\<close> with a \<^verbatim>\<open>break\<close> at the first cell off the board. The
  conjunct \<open>dx \<noteq> 0\<close> is not in the source: it holds of each of the four directions the
  source iterates over, and it is what makes the loop end on every argument.
\<close>

function bishop_ray :: "int \<Rightarrow> int \<Rightarrow> int \<Rightarrow> int \<Rightarrow> int \<Rightarrow> (int \<times> int) list" where
  "bishop_ray x y dx dy step =
     (let new_x = x + dx * step; new_y = y + dy * step
      in if in_bounds new_x new_y \<and> dx \<noteq> 0
         then (new_x, new_y) # bishop_ray x y dx dy (step + 1)
         else [])"
  by pat_completeness auto
termination
  by (relation "measure (\<lambda>(x, y, dx, dy, step).
                  if 0 < dx then nat (8 - (x + dx * step)) else nat (x + dx * step + 1))")
     (auto simp: in_bounds_def distrib_left)

declare bishop_ray.simps [simp del]

definition directions :: "(int \<times> int) list" where
  "directions = [(-1, -1), (-1, 1), (1, -1), (1, 1)]"

definition Bishop_get_possible_moves :: "figure \<Rightarrow> (int \<times> int) list" where
  "Bishop_get_possible_moves self =
     (case position self of (x, y) \<Rightarrow>
        concat (map (\<lambda>(dx, dy). bishop_ray x y dx dy 1) directions))"

definition Queen_get_possible_moves :: "figure \<Rightarrow> (int \<times> int) list" where
  "Queen_get_possible_moves self =
     (case position self of (x, y) \<Rightarrow>
        concat (map (\<lambda>i. (if i \<noteq> x then [(i, y)] else []) @ (if i \<noteq> y then [(x, i)] else []))
                [0..7])
        @ concat (map (\<lambda>(dx, dy). bishop_ray x y dx dy 1) directions))"

text \<open>King, inherited unchanged by Snake.\<close>

definition King_get_possible_moves :: "figure \<Rightarrow> (int \<times> int) list" where
  "King_get_possible_moves self =
     (case position self of (x, y) \<Rightarrow>
        [(x + 1, y), (x - 1, y), (x, y + 1), (x, y - 1), (x + 1, y + 1),
         (x - 1, y - 1), (x + 1, y - 1), (x - 1, y + 1)])"

text \<open>Method dispatch on the class of the object.\<close>

definition get_possible_moves :: "figure \<Rightarrow> (int \<times> int) list" where
  "get_possible_moves self =
     (case kind self of
        Pawn \<Rightarrow> Pawn_get_possible_moves self
      | Rook \<Rightarrow> Rook_get_possible_moves self
      | Knight \<Rightarrow> Knight_get_possible_moves self
      | Bishop \<Rightarrow> Bishop_get_possible_moves self
      | Queen \<Rightarrow> Queen_get_possible_moves self
      | King \<Rightarrow> King_get_possible_moves self
      | Ghost \<Rightarrow> Ghost_get_possible_moves self
      | Snake \<Rightarrow> King_get_possible_moves self
      | CheckersFigure \<Rightarrow> CheckersFigure_get_possible_moves self)"

section \<open>The board and its store\<close>

text \<open>
  \<open>objs\<close> is the store of figure objects and \<open>rows\<close> the store of row lists, both by
  address; \<open>next_obj\<close> and \<open>next_row\<close> are the next free addresses. \<open>field\<close> is
  \<^verbatim>\<open>self.field\<close>, the addresses of its eight rows, and \<open>history\<close> is
  \<^verbatim>\<open>self.history\<close>, each snapshot again a list of row addresses. The outer lists are
  kept by value: the program never assigns to \<^verbatim>\<open>self.field[r]\<close>, only to
  \<^verbatim>\<open>self.field[r][c]\<close>, that is into a row. Printing is not modelled.
\<close>

record board =
  objs :: "nat \<Rightarrow> figure"
  next_obj :: nat
  rows :: "nat \<Rightarrow> nat option list"
  next_row :: nat
  field :: "nat list"
  history :: "nat list list"

text \<open>\<^verbatim>\<open>self.field[r][c]\<close>\<close>

definition field_get :: "board \<Rightarrow> int \<Rightarrow> int \<Rightarrow> error + nat option" where
  "field_get s r c = and_then (py_index (field s) r) (\<lambda>ra. py_index (rows s ra) c)"

text \<open>\<^verbatim>\<open>self.field[r][c] = v\<close>\<close>

definition field_set :: "board \<Rightarrow> int \<Rightarrow> int \<Rightarrow> nat option \<Rightarrow> error + board" where
  "field_set s r c v =
     and_then (py_index (field s) r) (\<lambda>ra.
     and_then (py_store (rows s ra) c v) (\<lambda>row.
     Inr (s\<lparr>rows := (rows s)(ra := row)\<rparr>)))"

text \<open>\<^verbatim>\<open>Cls(color, position)\<close>: a new object, \<^verbatim>\<open>kill\<close> defaults to False.\<close>

definition new_figure :: "board \<Rightarrow> kind \<Rightarrow> color \<Rightarrow> int \<times> int \<Rightarrow> board \<times> nat" where
  "new_figure s k c p =
     (s\<lparr>objs := (objs s)(next_obj s := \<lparr>kind = k, color = c, position = p, kill = False\<rparr>),
        next_obj := next_obj s + 1\<rparr>,
      next_obj s)"

text \<open>\<^verbatim>\<open>self.field[r][c] = Cls(color, position)\<close>\<close>

definition place :: "int \<Rightarrow> int \<Rightarrow> kind \<Rightarrow> color \<Rightarrow> int \<times> int \<Rightarrow> board \<Rightarrow> error + board" where
  "place r c k col p s = (case new_figure s k col p of (s', a) \<Rightarrow> field_set s' r c (Some a))"

text \<open>\<^verbatim>\<open>obj.position = p\<close> and \<^verbatim>\<open>obj.kill = v\<close> on the object at address \<open>a\<close>.\<close>

definition set_position :: "board \<Rightarrow> nat \<Rightarrow> int \<times> int \<Rightarrow> board" where
  "set_position s a p = s\<lparr>objs := (objs s)(a := (objs s a)\<lparr>position := p\<rparr>)\<rparr>"

definition set_kill :: "board \<Rightarrow> nat \<Rightarrow> bool \<Rightarrow> board" where
  "set_kill s a v = s\<lparr>objs := (objs s)(a := (objs s a)\<lparr>kill := v\<rparr>)\<rparr>"

text \<open>A new list object holding \<open>xs\<close>.\<close>

definition new_row :: "board \<Rightarrow> nat option list \<Rightarrow> board \<times> nat" where
  "new_row s xs = (s\<lparr>rows := (rows s)(next_row s := xs), next_row := next_row s + 1\<rparr>, next_row s)"

text \<open>A \<^verbatim>\<open>for\<close> loop whose body changes the board.\<close>

fun for_each :: "'a list \<Rightarrow> ('a \<Rightarrow> board \<Rightarrow> error + board) \<Rightarrow> board \<Rightarrow> error + board" where
  "for_each [] body s = Inr s"
| "for_each (x # xs) body s = and_then (body x s) (for_each xs body)"

section \<open>Path clearance\<close>

fun row_scan :: "board \<Rightarrow> int \<Rightarrow> int list \<Rightarrow> error + bool" where
  "row_scan s a1 [] = Inr True"
| "row_scan s a1 (col # cols) =
     and_then (field_get s a1 col) (\<lambda>v. if v \<noteq> None then Inr False else row_scan s a1 cols)"

fun col_scan :: "board \<Rightarrow> int \<Rightarrow> int list \<Rightarrow> error + bool" where
  "col_scan s b1 [] = Inr True"
| "col_scan s b1 (row # rws) =
     and_then (field_get s row b1) (\<lambda>v. if v \<noteq> None then Inr False else col_scan s b1 rws)"

text \<open>
  The diagonal \<^verbatim>\<open>while row != a2 or col != b2\<close> loop, with an iteration budget:
  a loop that still wants to run when the budget is used up gives \<open>OutOfFuel\<close>.
\<close>

fun diag_loop :: "board \<Rightarrow> nat \<Rightarrow> int \<Rightarrow> int \<Rightarrow> int \<Rightarrow> int \<Rightarrow> int \<Rightarrow> int \<Rightarrow> error + bool" where
  "diag_loop s 0 row col a2 b2 row_step col_step =
     (if row \<noteq> a2 \<or> col \<noteq> b2 then Inl OutOfFuel else Inr True)"
| "diag_loop s (Suc n) row col a2 b2 row_step col_step =
     (if row \<noteq> a2 \<or> col \<noteq> b2
      then and_then (field_get s row col) (\<lambda>v.
             if v \<noteq> None then Inr False
             else diag_loop s n (row + row_step) (col + col_step) a2 b2 row_step col_step)
      else Inr True)"

text \<open>
  The result is \<open>Some True\<close>, \<open>Some False\<close> or, when no branch applies and the
  function falls off its end, Python's \<^verbatim>\<open>None\<close>. The budget of the diagonal loop
  is the distance of the rows.
\<close>

definition is_path_clear :: "board \<Rightarrow> int \<Rightarrow> int \<Rightarrow> int \<Rightarrow> int \<Rightarrow> error + bool option" where
  "is_path_clear s a1 b1 a2 b2 =
     (if a1 = a2 then
        and_then (row_scan s a1 [min b1 b2 + 1 .. max b1 b2 - 1]) (\<lambda>r. Inr (Some r))
      else if b1 = b2 then
        and_then (col_scan s b1 [min a1 a2 + 1 .. max a1 a2 - 1]) (\<lambda>r. Inr (Some r))
      else if \<bar>a1 - a2\<bar> = \<bar>b1 - b2\<bar> then
        (let row_step = (if a2 > a1 then 1 else -1);
             col_step = (if b2 > b1 then 1 else -1)
         in and_then (diag_loop s (nat \<bar>a1 - a2\<bar>) (a1 + row_step) (b1 + col_step) a2 b2
                        row_step col_step)
              (\<lambda>r. Inr (Some r)))
      else Inr None)"

text \<open>Truth value of what \<open>is_path_clear\<close> returns: \<^verbatim>\<open>None\<close> is false.\<close>

definition truthy :: "bool option \<Rightarrow> bool" where
  "truthy r = (r = Some True)"

section \<open>Board\<close>

text \<open>
  \<^verbatim>\<open>Board.check_move\<close>, lines 503 to 511: the candidate list of the figure, replaced
  by the two diagonal cells next to the source cell when the figure is a Pawn and the
  target holds a figure of one of the eight listed classes and of the other colour.
\<close>

definition move_targets :: "board \<Rightarrow> figure \<Rightarrow> nat option \<Rightarrow> int \<Rightarrow> int \<Rightarrow> (int \<times> int) list" where
  "move_targets s figure enemy a1 b1 =
     (if kind figure = Pawn
         \<and> (case enemy of None \<Rightarrow> False
              | Some e \<Rightarrow> isinstance_chess (kind (objs s e)) \<and> color figure \<noteq> color (objs s e))
      then (if color figure = White then [(a1 - 1, b1 + 1), (a1 - 1, b1 - 1)]
            else [(a1 + 1, b1 + 1), (a1 + 1, b1 - 1)])
      else get_possible_moves figure)"

definition check_move :: "board \<Rightarrow> int \<times> int \<Rightarrow> int \<times> int \<Rightarrow> error + bool" where
  "check_move s step1 step2 =
     (case step1 of (a1, b1) \<Rightarrow> (case step2 of (a2, b2) \<Rightarrow>
        and_then (field_get s a1 b1) (\<lambda>figure.
        and_then (field_get s a2 b2) (\<lambda>enemy.
        (case figure of
           None \<Rightarrow> Inr False
         | Some f \<Rightarrow>
             if isinstance_chess (kind (objs s f)) then
               (if (a2, b2) \<in> set (move_targets s (objs s f) enemy a1 b1) then
                  (if kind (objs s f) = Knight \<or> kind (objs s f) = Ghost then Inr True
                   else and_then (is_path_clear s a1 b1 a2 b2) (\<lambda>r. Inr (truthy r)))
                else Inr False)
             else Inr False)))))"

text \<open>\<^verbatim>\<open>Board.save_state\<close>: every row is copied into a new list; the cells of the copy
  hold the same objects.\<close>

fun copy_rows :: "board \<Rightarrow> nat list \<Rightarrow> board \<times> nat list" where
  "copy_rows s [] = (s, [])"
| "copy_rows s (ra # ras) =
     (case new_row s (rows s ra) of (s1, a) \<Rightarrow>
        (case copy_rows s1 ras of (s2, as) \<Rightarrow> (s2, a # as)))"

definition save_state :: "board \<Rightarrow> board" where
  "save_state s =
     (case copy_rows s (field s) of (s', board_copy) \<Rightarrow> s'\<lparr>history := history s' @ [board_copy]\<rparr>)"

text \<open>\<^verbatim>\<open>Board.undo_move\<close>: \<^verbatim>\<open>self.field = self.history[-1]\<close> makes the grid the
  last snapshot itself, not a copy of it.\<close>

definition undo_move :: "board \<Rightarrow> board" where
  "undo_move s =
     (if length (history s) > 1
      then s\<lparr>history := butlast (history s), field := last (butlast (history s))\<rparr>
      else s)"

text \<open>\<^verbatim>\<open>Board.setup_board\<close>\<close>

definition back_row :: "kind list" where
  "back_row = [Rook, Knight, Bishop, Queen, King, Bishop, Knight, Rook]"

definition setup_board :: "board \<Rightarrow> error + board" where
  "setup_board s =
     and_then (for_each [0..7]
                 (\<lambda>col s. and_then (place 1 col Pawn Black (1, col) s)
                             (place 6 col Pawn White (6, col))) s)
       (for_each (zip [0..7] back_row)
          (\<lambda>(col, piece_class) s.
             and_then (place 0 col piece_class Black (0, col) s)
               (place 7 col piece_class White (7, col))))"

text \<open>
  \<^verbatim>\<open>Board.__init__\<close>, with the \<^verbatim>\<open>setup_board\<close> of the class of the object as a
  parameter: eight new rows of eight \<^verbatim>\<open>None\<close>, an empty history, the setup, the
  first snapshot.
\<close>

definition empty_store :: board where
  "empty_store =
     \<lparr>objs = (\<lambda>a. \<lparr>kind = Pawn, color = White, position = (0, 0), kill = False\<rparr>),
      next_obj = 0, rows = (\<lambda>a. []), next_row = 0, field = [], history = []\<rparr>"

fun new_rows :: "board \<Rightarrow> nat \<Rightarrow> board \<times> nat list" where
  "new_rows s 0 = (s, [])"
| "new_rows s (Suc n) =
     (case new_row s (replicate 8 None) of (s1, a) \<Rightarrow>
        (case new_rows s1 n of (s2, as) \<Rightarrow> (s2, a # as)))"

definition empty_board :: board where
  "empty_board = (case new_rows empty_store 8 of (s, as) \<Rightarrow> s\<lparr>field := as, history := []\<rparr>)"

definition board_init :: "(board \<Rightarrow> error + board) \<Rightarrow> error + board" where
  "board_init setup = and_then (setup empty_board) (\<lambda>s. Inr (save_state s))"

definition Board_init :: "error + board" where
  "Board_init = board_init setup_board"

text \<open>\<^verbatim>\<open>Board.if_rock_possible\<close>; the conjunction is evaluated from the left and stops
  at its first false conjunct.\<close>

definition rock_possible_on :: "board \<Rightarrow> int \<Rightarrow> color \<Rightarrow> error + bool" where
  "rock_possible_on s row pl_color =
     and_then (field_get s row 4) (\<lambda>k.
       case k of
         None \<Rightarrow> Inr False
       | Some kf \<Rightarrow>
           if isinstance_King (kind (objs s kf)) \<and> color (objs s kf) = pl_color then
             and_then (field_get s row 7) (\<lambda>r.
               case r of
                 None \<Rightarrow> Inr False
               | Some rf \<Rightarrow>
                   if kind (objs s rf) = Rook \<and> color (objs s rf) = pl_color then
                     and_then (is_path_clear s row 4 row 7) (\<lambda>p. Inr (truthy p))
                   else Inr False)
           else Inr False)"

definition if_rock_possible :: "board \<Rightarrow> color \<Rightarrow> error + bool" where
  "if_rock_possible s pl_color =
     (if pl_color = White then rock_possible_on s 0 pl_color else rock_possible_on s 7 pl_color)"

text \<open>\<^verbatim>\<open>Board.rock\<close>\<close>

definition rock_on :: "board \<Rightarrow> int \<Rightarrow> error + board" where
  "rock_on s row =
     and_then (field_get s row 4) (\<lambda>k.
     and_then (field_set s row 6 k) (\<lambda>s1.
     and_then (field_set s1 row 4 None) (\<lambda>s2.
     and_then (field_get s2 row 7) (\<lambda>r.
     and_then (field_set s2 row 5 r) (\<lambda>s3.
     field_set s3 row 7 None)))))"

definition rock :: "board \<Rightarrow> color \<Rightarrow> error + board" where
  "rock s pl_color = (case pl_color of White \<Rightarrow> rock_on s 0 | Black \<Rightarrow> rock_on s 7)"

text \<open>\<^verbatim>\<open>Board.make_move\<close>. Every cell that is not \<^verbatim>\<open>None\<close> holds an object of one of
  the nine classes of the \<^verbatim>\<open>isinstance\<close> test. \<^verbatim>\<open>figure.position = ...\<close> on
  \<^verbatim>\<open>None\<close> raises.\<close>

definition make_move :: "board \<Rightarrow> int \<times> int \<Rightarrow> int \<times> int \<Rightarrow> error + board" where
  "make_move s step1 step2 =
     (case step1 of (a1, b1) \<Rightarrow> (case step2 of (a2, b2) \<Rightarrow>
        and_then (field_get s a1 b1) (\<lambda>figure.
        and_then (field_get s a2 b2) (\<lambda>target.
        let s1 = (case (target, figure) of
                    (Some t, Some f) \<Rightarrow> if kind (objs s f) = Snake then set_kill s f True else s
                  | _ \<Rightarrow> s)
        in and_then (field_set s1 a2 b2 figure) (\<lambda>s2.
           case figure of
             None \<Rightarrow> Inl AttributeError
           | Some f \<Rightarrow>
               and_then (field_set (set_position s2 f (a2, b2)) a1 b1 None) (\<lambda>s3.
               Inr (save_state s3)))))))"

text \<open>
  \<^verbatim>\<open>Board.is_game_over\<close>. The first double loop records the cell of the last King
  (or Snake) of each colour in scanning order. The second subscripts the recorded cell
  of the other colour's king for every figure of the listed classes; subscripting
  \<^verbatim>\<open>None\<close> raises \<^verbatim>\<open>TypeError\<close>.
\<close>

definition all_cells :: "(int \<times> int) list" where
  "all_cells = concat (map (\<lambda>row. map (\<lambda>col. (row, col)) [0..7]) [0..7])"

fun find_kings ::
  "board \<Rightarrow> (int \<times> int) list \<Rightarrow> (int \<times> int) option \<Rightarrow> (int \<times> int) option \<Rightarrow>
   error + ((int \<times> int) option \<times> (int \<times> int) option)" where
  "find_kings s [] black_king_position white_king_position =
     Inr (black_king_position, white_king_position)"
| "find_kings s ((row, col) # cells) black_king_position white_king_position =
     and_then (field_get s row col) (\<lambda>piece.
       case piece of
         None \<Rightarrow> find_kings s cells black_king_position white_king_position
       | Some p \<Rightarrow>
           if isinstance_King (kind (objs s p)) then
             (if color (objs s p) = Black
              then find_kings s cells (Some (row, col)) white_king_position
              else find_kings s cells black_king_position (Some (row, col)))
           else find_kings s cells black_king_position white_king_position)"

text \<open>\<^verbatim>\<open>isinstance(piece, (Pawn, Rook, Bishop, Knight, King, Queen))\<close>; a Snake is a King.\<close>

definition isinstance_standard :: "kind \<Rightarrow> bool" where
  "isinstance_standard k = (k \<noteq> Ghost \<and> k \<noteq> CheckersFigure)"

fun collect_risks ::
  "board \<Rightarrow> (int \<times> int) list \<Rightarrow> (int \<times> int) option \<Rightarrow> (int \<times> int) option \<Rightarrow>
   (int \<times> int) list \<Rightarrow> (int \<times> int) list \<Rightarrow> error + ((int \<times> int) list \<times> (int \<times> int) list)" where
  "collect_risks s [] bk wk risks_for_black risks_for_white =
     Inr (risks_for_black, risks_for_white)"
| "collect_risks s ((row, col) # cells) bk wk risks_for_black risks_for_white =
     and_then (field_get s row col) (\<lambda>piece.
       case piece of
         None \<Rightarrow> collect_risks s cells bk wk risks_for_black risks_for_white
       | Some p \<Rightarrow>
           if isinstance_standard (kind (objs s p)) then
             (if color (objs s p) = White then
                (case bk of
                   None \<Rightarrow> Inl TypeError
                 | Some (kr, kc) \<Rightarrow>
                     and_then (is_path_clear s row col kr kc) (\<lambda>r.
                       if truthy r
                       then collect_risks s cells bk wk
                              (risks_for_black @ get_possible_moves (objs s p)) risks_for_white
                       else collect_risks s cells bk wk risks_for_black risks_for_white))
              else
                (case wk of
                   None \<Rightarrow> Inl TypeError
                 | Some (kr, kc) \<Rightarrow>
                     and_then (is_path_clear s row col kr kc) (\<lambda>r.
                       if truthy r
                       then collect_risks s cells bk wk
                              risks_for_black (risks_for_white @ get_possible_moves (objs s p))
                       else collect_risks s cells bk wk risks_for_black risks_for_white)))
           else collect_risks s cells bk wk risks_for_black risks_for_white)"

text \<open>The test of one king against the risks collected for its colour: \<open>None\<close> when the
  \<^verbatim>\<open>if\<close> does not apply, otherwise the value returned.\<close>

definition king_verdict :: "board \<Rightarrow> (int \<times> int) option \<Rightarrow> (int \<times> int) list \<Rightarrow> error + bool option" where
  "king_verdict s king_position risks =
     (case king_position of
        None \<Rightarrow> Inr None
      | Some (kr, kc) \<Rightarrow>
          if (kr, kc) \<in> set risks then
            and_then (field_get s kr kc) (\<lambda>king.
              case king of
                None \<Rightarrow> Inl AttributeError
              | Some k \<Rightarrow> Inr (Some (\<forall>move \<in> set (get_possible_moves (objs s k)). move \<in> set risks)))
          else Inr None)"

definition is_game_over :: "board \<Rightarrow> error + bool" where
  "is_game_over s =
     and_then (find_kings s all_cells None None) (\<lambda>(black_king_position, white_king_position).
     and_then (collect_risks s all_cells black_king_position white_king_position [] [])
       (\<lambda>(potential_risks_for_black, potential_risks_for_white).
     and_then (king_verdict s black_king_position potential_risks_for_black) (\<lambda>vb.
       case vb of
         Some r \<Rightarrow> Inr r
       | None \<Rightarrow>
           and_then (king_verdict s white_king_position potential_risks_for_white) (\<lambda>vw.
             case vw of
               Some r \<Rightarrow> Inr r
             | None \<Rightarrow> Inr False))))"

section \<open>CheckersBoard\<close>

text \<open>\<^verbatim>\<open>CheckersBoard.setup_board\<close>, with the positions the source passes to the
  constructors.\<close>

definition checkers_setup_board :: "board \<Rightarrow> error + board" where
  "checkers_setup_board s =
     for_each [0..7]
       (\<lambda>col s.
          if col mod 2 \<noteq> 0 then
            and_then (place 0 col CheckersFigure Black (0, col) s) (\<lambda>s.
            and_then (place 2 col CheckersFigure Black (2, col) s)
              (place 6 col CheckersFigure White (6, col)))
          else
            and_then (place 7 col CheckersFigure White (6, col) s) (\<lambda>s.
            and_then (place 1 col CheckersFigure Black (1, col) s)
              (place 5 col CheckersFigure White (5, col)))) s"

definition CheckersBoard_init :: "error + board" where
  "CheckersBoard_init = board_init checkers_setup_board"

text \<open>\<^verbatim>\<open>CheckersBoard.check_move\<close>; \<^verbatim>\<open>and\<close> evaluates \<^verbatim>\<open>is_path_clear\<close> only
  when the conjuncts before it hold.\<close>

definition checkers_check_move :: "board \<Rightarrow> int \<times> int \<Rightarrow> int \<times> int \<Rightarrow> error + bool" where
  "checkers_check_move s step1 step2 =
     (case step1 of (a1, b1) \<Rightarrow> (case step2 of (a2, b2) \<Rightarrow>
        and_then (field_get s a1 b1) (\<lambda>figure.
          case figure of
            None \<Rightarrow> Inr False
          | Some f \<Rightarrow>
              if kind (objs s f) \<noteq> CheckersFigure \<and> kind (objs s f) \<noteq> Bishop then Inr False
              else
                (let possible_moves = get_possible_moves (objs s f)
                 in if kind (objs s f) = Bishop then Inr ((a2, b2) \<in> set possible_moves)
                    else
                      and_then
                        (if \<bar>a2 - a1\<bar> = 2 \<and> \<bar>b2 - b1\<bar> = 2
                         then and_then (is_path_clear s a1 b1 a2 b2) (\<lambda>r. Inr (\<not> truthy r))
                         else Inr False)
                        (\<lambda>jump.
                           if jump then Inr True
                           else if (a2, b2) \<in> set possible_moves
                           then and_then (is_path_clear s a1 b1 a2 b2) (\<lambda>r. Inr (truthy r))
                           else Inr False)))))"

text \<open>\<^verbatim>\<open>range(start, stop)\<close> and \<^verbatim>\<open>range(start, stop, -1)\<close>\<close>

definition py_range :: "int \<Rightarrow> int \<Rightarrow> int list" where
  "py_range start stop = [start .. stop - 1]"

definition py_range_down :: "int \<Rightarrow> int \<Rightarrow> int list" where
  "py_range_down start stop = rev [stop + 1 .. start]"

text \<open>The loops of the Bishop branch: \<^verbatim>\<open>self.field[row][b1 + sign * col] = None\<close> with
  \<^verbatim>\<open>col\<close> counting up from 1.\<close>

fun clear_diagonal :: "int list \<Rightarrow> int \<Rightarrow> int \<Rightarrow> int \<Rightarrow> board \<Rightarrow> error + board" where
  "clear_diagonal [] b1 sign col s = Inr s"
| "clear_diagonal (row # rws) b1 sign col s =
     and_then (field_set s row (b1 + sign * col) None) (clear_diagonal rws b1 sign (col + 1))"

text \<open>\<^verbatim>\<open>CheckersBoard.make_move\<close>. The fourth condition of the Bishop branch repeats
  the first and is never reached. A promotion puts a new Bishop object into the target
  cell.\<close>

definition checkers_make_move :: "board \<Rightarrow> int \<times> int \<Rightarrow> int \<times> int \<Rightarrow> error + board" where
  "checkers_make_move s step1 step2 =
     (case step1 of (a1, b1) \<Rightarrow> (case step2 of (a2, b2) \<Rightarrow>
        and_then (field_get s a1 b1) (\<lambda>figure.
        and_then (is_path_clear s a1 b1 a2 b2) (\<lambda>clear.
        and_then
          (if \<not> truthy clear then
             (case figure of
                None \<Rightarrow> Inr s
              | Some f \<Rightarrow>
                  if kind (objs s f) = CheckersFigure then
                    (let mid_x = (a1 + a2) div 2; mid_y = (b1 + b2) div 2
                     in field_set (set_kill s f True) mid_x mid_y None)
                  else if kind (objs s f) = Bishop then
                    and_then
                      (if a1 < a2 \<and> b1 < b2 then clear_diagonal (py_range (a1 + 1) a2) b1 1 1 s
                       else if a1 > a2 \<and> b1 < b2 then clear_diagonal (py_range (a1 + 1) a2) b1 (-1) 1 s
                       else if a1 < a2 \<and> b1 > b2 then clear_diagonal (py_range_down (a1 + 1) a2) b1 1 1 s
                       else Inr s)
                      (\<lambda>s. Inr (set_kill s f True))
                  else Inr s)
           else Inr s)
          (\<lambda>s1.
        and_then (field_set s1 a2 b2 figure) (\<lambda>s2.
          case figure of
            None \<Rightarrow> Inl AttributeError
          | Some f \<Rightarrow>
              and_then (field_set (set_position s2 f (a2, b2)) a1 b1 None) (\<lambda>s3.
                if (color (objs s3 f) = White \<and> a2 = 0) \<or> (color (objs s3 f) = Black \<and> a2 = 7)
                then place a2 b2 Bishop (color (objs s3 f)) (a2, b2) s3
                else Inr s3)))))))"

text \<open>\<^verbatim>\<open>CheckersBoard.is_game_over\<close>: the inner loop over the candidate moves of one
  man, then the scan of the cells with the two flags.\<close>

fun any_move_accepted :: "board \<Rightarrow> int \<times> int \<Rightarrow> (int \<times> int) list \<Rightarrow> error + bool" where
  "any_move_accepted s cell [] = Inr False"
| "any_move_accepted s cell (move # moves) =
     and_then (checkers_check_move s cell move) (\<lambda>ok.
       if ok then Inr True else any_move_accepted s cell moves)"

fun checkers_scan :: "board \<Rightarrow> (int \<times> int) list \<Rightarrow> bool \<Rightarrow> bool \<Rightarrow> error + bool" where
  "checkers_scan s [] black white = Inr (\<not> (black \<and> white))"
| "checkers_scan s ((row, col) # cells) black white =
     and_then (field_get s row col) (\<lambda>figure.
       case figure of
         None \<Rightarrow> checkers_scan s cells black white
       | Some f \<Rightarrow>
           if kind (objs s f) = CheckersFigure then
             and_then (any_move_accepted s (row, col) (get_possible_moves (objs s f))) (\<lambda>found.
               if found then Inr False
               else checkers_scan s cells
                      (black \<or> color (objs s f) = Black) (white \<or> color (objs s f) = White))
           else checkers_scan s cells black white)"

definition checkers_is_game_over :: "board \<Rightarrow> error + bool" where
  "checkers_is_game_over s = checkers_scan s all_cells False False"

section \<open>ExtendedBoard\<close>

text \<open>\<^verbatim>\<open>ExtendedBoard.setup_board\<close>: the setup of \<^verbatim>\<open>Board\<close>, then twelve more
  figures. The other methods are those of \<^verbatim>\<open>Board\<close>.\<close>

definition extended_setup_board :: "board \<Rightarrow> error + board" where
  "extended_setup_board s =
     and_then (setup_board s) (\<lambda>s.
     and_then (place 5 2 CheckersFigure White (5, 2) s) (\<lambda>s.
     and_then (place 5 5 CheckersFigure White (5, 5) s) (\<lambda>s.
     and_then (place 2 2 CheckersFigure Black (2, 2) s) (\<lambda>s.
     and_then (place 2 5 CheckersFigure Black (2, 5) s) (\<lambda>s.
     and_then (place 5 1 Ghost White (5, 1) s) (\<lambda>s.
     and_then (place 5 6 Ghost White (5, 6) s) (\<lambda>s.
     and_then (place 2 1 Ghost Black (2, 1) s) (\<lambda>s.
     and_then (place 2 6 Ghost Black (2, 6) s) (\<lambda>s.
     and_then (place 5 0 Snake White (5, 0) s) (\<lambda>s.
     and_then (place 5 7 Snake White (5, 7) s) (\<lambda>s.
     and_then (place 2 0 Snake Black (2, 0) s)
       (place 2 7 Snake Black (2, 7)))))))))))))"

definition ExtendedBoard_init :: "error + board" where
  "ExtendedBoard_init = board_init extended_setup_board"

section \<open>Game\<close>

text \<open>
  \<open>variant\<close> is the class of \<^verbatim>\<open>self.board\<close>, which decides the methods a call
  reaches: \<^verbatim>\<open>Game\<close> holds a \<^verbatim>\<open>Board\<close>, \<^verbatim>\<open>CheckersGame\<close> a
  \<^verbatim>\<open>CheckersBoard\<close>, \<^verbatim>\<open>ExtendedGame\<close> an \<^verbatim>\<open>ExtendedBoard\<close>.
\<close>

datatype variant = Chess | Checkers | Extended

record game =
  board :: board
  variant :: variant
  current_player :: color
  game_over :: bool
  moves :: "(int \<times> int) list"
  is_rock :: bool
  is_chess :: bool

definition board_check_move :: "variant \<Rightarrow> board \<Rightarrow> int \<times> int \<Rightarrow> int \<times> int \<Rightarrow> error + bool" where
  "board_check_move v = (case v of Checkers \<Rightarrow> checkers_check_move | _ \<Rightarrow> check_move)"

definition board_make_move :: "variant \<Rightarrow> board \<Rightarrow> int \<times> int \<Rightarrow> int \<times> int \<Rightarrow> error + board" where
  "board_make_move v = (case v of Checkers \<Rightarrow> checkers_make_move | _ \<Rightarrow> make_move)"

definition other_player :: "color \<Rightarrow> color" where
  "other_player c = (if c = White then Black else White)"

text \<open>
  \<^verbatim>\<open>Game.play\<close>, lines 897 to 908: what one pass of the loop does with the two cells
  in \<^verbatim>\<open>self.moves\<close> once they are read. The figure in the target cell is read
  after the move; reading \<^verbatim>\<open>.kill\<close> of \<^verbatim>\<open>None\<close> raises.
\<close>

definition play_move :: "game \<Rightarrow> error + game" where
  "play_move g =
     and_then (py_index (moves g) 0) (\<lambda>m0.
     and_then (py_index (moves g) 1) (\<lambda>m1.
     and_then (board_check_move (variant g) (board g) m0 m1) (\<lambda>ok.
       if ok then
         and_then (board_make_move (variant g) (board g) m0 m1) (\<lambda>s.
         and_then (field_get s (fst m1) (snd m1)) (\<lambda>moved.
           case moved of
             None \<Rightarrow> Inl AttributeError
           | Some f \<Rightarrow>
               if \<not> kill (objs s f)
               then Inr (g\<lparr>board := set_kill s f False,
                           current_player := other_player (current_player g), moves := []\<rparr>)
               else Inr (g\<lparr>board := set_kill s f False, moves := []\<rparr>)))
       else Inr (g\<lparr>moves := []\<rparr>))))"

text \<open>
  \<^verbatim>\<open>Game.__init__\<close> and its two subclasses: the board of the variant, White to move.
  (The subclasses first build a \<^verbatim>\<open>Board\<close> that they replace at once.)
\<close>

definition Game_init :: "variant \<Rightarrow> bool \<Rightarrow> error + game" where
  "Game_init v chess =
     and_then (case v of Chess \<Rightarrow> Board_init | Checkers \<Rightarrow> CheckersBoard_init
               | Extended \<Rightarrow> ExtendedBoard_init)
       (\<lambda>s. Inr \<lparr>board = s, variant = v, current_player = White, game_over = False,
                 moves = [], is_rock = False, is_chess = chess\<rparr>)"

section \<open>Well-formed boards and concrete positions\<close>

text \<open>
  The grid of every board the program builds has eight rows of eight cells, and every
  address in a cell is that of an object already created.
\<close>

definition wf_board :: "board \<Rightarrow> bool" where
  "wf_board s =
     (length (field s) = 8
      \<and> (\<forall>ra \<in> set (field s).
            length (rows s ra) = 8
            \<and> (\<forall>cell \<in> set (rows s ra). case cell of None \<Rightarrow> True | Some a \<Rightarrow> a < next_obj s)))"

definition on_board :: "int \<times> int \<Rightarrow> bool" where
  "on_board cell = (case cell of (r, c) \<Rightarrow> in_bounds r c)"

text \<open>The board of a computation that did not raise.\<close>

definition the_board :: "error + board \<Rightarrow> board" where
  "the_board r = (case r of Inr s \<Rightarrow> s | Inl e \<Rightarrow> empty_store)"

definition returns :: "error + 'a \<Rightarrow> bool" where
  "returns r = (case r of Inr v \<Rightarrow> True | Inl e \<Rightarrow> False)"

text \<open>\<open>returns_with r P\<close>: the computation did not raise and \<open>P\<close> holds of what it
  returned. \<open>holds_man s cell\<close>: the cell holds a checkers man.\<close>

definition returns_with :: "error + 'a \<Rightarrow> ('a \<Rightarrow> bool) \<Rightarrow> bool" where
  "returns_with r P = (case r of Inl e \<Rightarrow> False | Inr v \<Rightarrow> P v)"

definition holds_man :: "board \<Rightarrow> int \<times> int \<Rightarrow> bool" where
  "holds_man s cell =
     (case field_get s (fst cell) (snd cell) of
        Inr (Some f) \<Rightarrow> kind (objs s f) = CheckersFigure
      | _ \<Rightarrow> False)"

text \<open>A white Knight and a white Queen behind white Pawns.\<close>

definition knight_position :: board where
  "knight_position =
     the_board
       (and_then (place 7 1 Knight White (7, 1) empty_board) (\<lambda>s.
        and_then (place 6 1 Pawn White (6, 1) s) (\<lambda>s.
        and_then (place 6 2 Pawn White (6, 2) s) (\<lambda>s.
        and_then (place 7 3 Queen White (7, 3) s)
          (place 6 3 Pawn White (6, 3))))))"

text \<open>A white Pawn at (6, 4) facing a black Rook at (5, 3) and a black Pawn at (5, 4);
  the same with two black checkers men.\<close>

definition pawn_position :: board where
  "pawn_position =
     the_board
       (and_then (place 6 4 Pawn White (6, 4) empty_board) (\<lambda>s.
        and_then (place 5 3 Rook Black (5, 3) s)
          (place 5 4 Pawn Black (5, 4))))"

definition pawn_checkers_position :: board where
  "pawn_checkers_position =
     the_board
       (and_then (place 6 4 Pawn White (6, 4) empty_board) (\<lambda>s.
        and_then (place 5 3 CheckersFigure Black (5, 3) s)
          (place 5 4 CheckersFigure Black (5, 4))))"

text \<open>A white King at (0, 4) and a white Rook at (0, 7), nothing between them.\<close>

definition castle_position :: board where
  "castle_position =
     the_board
       (and_then (place 0 4 King White (0, 4) empty_board) (\<lambda>s.
        and_then (place 0 7 Rook White (0, 7) s)
          (place 1 4 Pawn Black (1, 4))))"

text \<open>A white man at (2, 3) and a black man at (3, 4); (4, 5) is empty.\<close>

definition jump_position :: board where
  "jump_position =
     the_board
       (and_then (place 2 3 CheckersFigure White (2, 3) empty_board)
          (place 3 4 CheckersFigure Black (3, 4)))"

text \<open>A new game of chess once the player has entered the empty cell (3, 3) as source
  and (4, 4) as target.\<close>

definition the_game :: "error + game \<Rightarrow> game" where
  "the_game r =
     (case r of Inr g \<Rightarrow> g
      | Inl e \<Rightarrow> \<lparr>board = empty_store, variant = Chess, current_player = White, game_over = False,
                  moves = [], is_rock = False, is_chess = True\<rparr>)"

definition empty_source_game :: game where
  "empty_source_game = (the_game (Game_init Chess True))\<lparr>moves := [(3, 3), (4, 4)]\<rparr>"

text \<open>The figure in a cell of the grid, \<^verbatim>\<open>self.history[i][r][c]\<close>, and the number of
  checkers men of one colour on the grid.\<close>

definition figure_at :: "board \<Rightarrow> int \<Rightarrow> int \<Rightarrow> figure option" where
  "figure_at s r c = (case field_get s r c of Inr (Some a) \<Rightarrow> Some (objs s a) | _ \<Rightarrow> None)"

definition snapshot_get :: "board \<Rightarrow> int \<Rightarrow> int \<Rightarrow> int \<Rightarrow> error + nat option" where
  "snapshot_get s i r c =
     and_then (py_index (history s) i) (\<lambda>snapshot.
     and_then (py_index snapshot r) (\<lambda>ra. py_index (rows s ra) c))"

definition count_men :: "board \<Rightarrow> color \<Rightarrow> nat" where
  "count_men s c =
     length (filter (\<lambda>(row, col).
                       case figure_at s row col of
                         Some f \<Rightarrow> kind f = CheckersFigure \<and> color f = c
                       | None \<Rightarrow> False) all_cells)"

text \<open>A white King alone on the board, and a black checkers man alone on the board.\<close>

definition lone_king_position :: board where
  "lone_king_position = the_board (place 7 4 King White (7, 4) empty_board)"

definition lone_man_position :: board where
  "lone_man_position = the_board (place 3 3 CheckersFigure Black (3, 3) empty_board)"

section \<open>Basic facts\<close>

lemma and_then_Inl [simp]: "and_then (Inl e) f = Inl e"
  by (simp add: and_then_def)

lemma and_then_Inr [simp]: "and_then (Inr v) f = f v"
  by (simp add: and_then_def)

lemma and_then_eq_Inr: "and_then m f = Inr y \<longleftrightarrow> (\<exists>v. m = Inr v \<and> f v = Inr y)"
  by (cases m) simp_all

section \<open>The loops of is\_path\_clear end within their budget\<close>

text \<open>
  The diagonal loop is entered with both coordinates a whole number of steps away from
  the target, so it stops within the budget it is given: \<open>is_path_clear\<close> never
  yields \<open>OutOfFuel\<close>, and every other result is one the source computes.
\<close>

lemma py_index_not_fuel: "py_index xs i \<noteq> Inl OutOfFuel"
  by (simp add: py_index_def Let_def)

lemma field_get_not_fuel: "field_get s r c \<noteq> Inl OutOfFuel"
  using py_index_not_fuel [of "field s" r]
  by (cases "py_index (field s) r") (auto simp: field_get_def py_index_not_fuel)

lemma row_scan_not_fuel: "row_scan s a1 cols \<noteq> Inl OutOfFuel"
proof (induction cols)
  case Nil
  then show ?case by simp
next
  case (Cons col cols)
  then show ?case
    using field_get_not_fuel [of s a1 col]
    by (cases "field_get s a1 col") auto
qed

lemma col_scan_not_fuel: "col_scan s b1 rws \<noteq> Inl OutOfFuel"
proof (induction rws)
  case Nil
  then show ?case by simp
next
  case (Cons row rws)
  then show ?case
    using field_get_not_fuel [of s row b1]
    by (cases "field_get s row b1") auto
qed

lemma diag_loop_enough_fuel:
  "a2 = row + int k * row_step \<Longrightarrow> b2 = col + int k * col_step \<Longrightarrow> k \<le> n
   \<Longrightarrow> diag_loop s n row col a2 b2 row_step col_step \<noteq> Inl OutOfFuel"
proof (induction n arbitrary: row col k)
  case 0
  then show ?case by simp
next
  case (Suc n)
  show ?case
  proof (cases "row \<noteq> a2 \<or> col \<noteq> b2")
    case False
    then show ?thesis by simp
  next
    case True
    with Suc.prems obtain k' where k': "k = Suc k'"
      by (cases k) auto
    have ih: "diag_loop s n (row + row_step) (col + col_step) a2 b2 row_step col_step \<noteq> Inl OutOfFuel"
      using Suc.prems k' by (intro Suc.IH [of _ k']) (auto simp: algebra_simps)
    show ?thesis
      using True ih field_get_not_fuel [of s row col]
      by (cases "field_get s row col") auto
  qed
qed

lemma and_then_not_fuel: "m \<noteq> Inl OutOfFuel \<Longrightarrow> and_then m (\<lambda>r. Inr (g r)) \<noteq> Inl OutOfFuel"
  by (cases m) auto

lemma is_path_clear_never_out_of_fuel: "is_path_clear s a1 b1 a2 b2 \<noteq> Inl OutOfFuel"
proof -
  have d: "diag_loop s (nat \<bar>a1 - a2\<bar>) (a1 + (if a2 > a1 then 1 else -1)) (b1 + (if b2 > b1 then 1 else -1)) a2 b2
             (if a2 > a1 then 1 else -1) (if b2 > b1 then 1 else -1) \<noteq> Inl OutOfFuel"
    if "a1 \<noteq> a2" "b1 \<noteq> b2" "\<bar>a1 - a2\<bar> = \<bar>b1 - b2\<bar>"
    using that
    by (intro diag_loop_enough_fuel [of _ _ "nat \<bar>a1 - a2\<bar> - 1"]) (auto simp: algebra_simps)
  show ?thesis
    unfolding is_path_clear_def Let_def
    using d by (auto intro!: and_then_not_fuel row_scan_not_fuel col_scan_not_fuel)
qed

section \<open>Reading and writing cells\<close>

lemma py_store_length: "py_store xs i v = Inr ys \<Longrightarrow> length ys = length xs"
  by (auto simp: py_store_def Let_def split: if_splits)

lemma py_index_store_same: "py_store xs i v = Inr ys \<Longrightarrow> py_index ys i = Inr v"
  by (auto simp: py_store_def py_index_def Let_def split: if_splits)

lemma py_index_store_other:
  "py_store xs i v = Inr ys \<Longrightarrow> 0 \<le> i \<Longrightarrow> 0 \<le> j \<Longrightarrow> i \<noteq> j \<Longrightarrow> py_index ys j = py_index xs j"
  by (auto simp: py_store_def py_index_def Let_def split: if_splits)

lemma py_store_succeeds: "py_index xs i = Inr x \<Longrightarrow> \<exists>ys. py_store xs i v = Inr ys"
  by (auto simp: py_store_def py_index_def Let_def split: if_splits)

lemma field_set_frame:
  "field_set s r c v = Inr s' \<Longrightarrow>
     field s' = field s \<and> objs s' = objs s \<and> history s' = history s
     \<and> next_obj s' = next_obj s \<and> next_row s' = next_row s"
  by (auto simp: field_set_def and_then_eq_Inr)

lemma field_get_set_same: "field_set s r c v = Inr s' \<Longrightarrow> field_get s' r c = Inr v"
  by (auto simp: field_set_def field_get_def and_then_eq_Inr py_index_store_same)

lemma field_get_set_other_col:
  assumes "field_set s r c v = Inr s'" and "0 \<le> c" and "0 \<le> c'" and "c \<noteq> c'"
  shows "field_get s' r' c' = field_get s r' c'"
proof -
  from assms(1) obtain ra row where ra: "py_index (field s) r = Inr ra"
    and row: "py_store (rows s ra) c v = Inr row"
    and s': "s' = s\<lparr>rows := (rows s)(ra := row)\<rparr>"
    by (auto simp: field_set_def and_then_eq_Inr)
  show ?thesis
  proof (cases "py_index (field s) r'")
    case (Inl e)
    then show ?thesis by (simp add: field_get_def s')
  next
    case (Inr ra')
    then show ?thesis
      using py_index_store_other [OF row assms(2,3,4)]
      by (simp add: field_get_def s')
  qed
qed

lemma field_set_succeeds: "field_get s r c = Inr x \<Longrightarrow> \<exists>s'. field_set s r c v = Inr s'"
proof -
  assume "field_get s r c = Inr x"
  then obtain ra where ra: "py_index (field s) r = Inr ra" and x: "py_index (rows s ra) c = Inr x"
    by (auto simp: field_get_def and_then_eq_Inr)
  from py_store_succeeds [OF x, of v] obtain ys where "py_store (rows s ra) c v = Inr ys"
    by auto
  with ra show ?thesis by (simp add: field_set_def)
qed

lemma field_get_wf:
  assumes "wf_board s" and "in_bounds r c"
  shows "\<exists>v. field_get s r c = Inr v"
proof -
  from assms have r: "py_index (field s) r = Inr (field s ! nat r)"
    by (auto simp: wf_board_def in_bounds_def py_index_def)
  from assms have "field s ! nat r \<in> set (field s)"
    by (auto simp: wf_board_def in_bounds_def)
  with assms have "length (rows s (field s ! nat r)) = 8"
    by (auto simp: wf_board_def)
  with assms have "py_index (rows s (field s ! nat r)) c = Inr (rows s (field s ! nat r) ! nat c)"
    by (auto simp: in_bounds_def py_index_def)
  with r show ?thesis by (simp add: field_get_def)
qed

lemma field_get_allocated:
  assumes "wf_board s" and "in_bounds r c" and "field_get s r c = Inr (Some a)"
  shows "a < next_obj s"
proof -
  from assms have r: "py_index (field s) r = Inr (field s ! nat r)"
    by (auto simp: wf_board_def in_bounds_def py_index_def)
  from assms have m: "field s ! nat r \<in> set (field s)"
    by (auto simp: wf_board_def in_bounds_def)
  with assms have l: "length (rows s (field s ! nat r)) = 8"
    by (auto simp: wf_board_def)
  with assms have "py_index (rows s (field s ! nat r)) c = Inr (rows s (field s ! nat r) ! nat c)"
    by (auto simp: in_bounds_def py_index_def)
  with r assms have "rows s (field s ! nat r) ! nat c = Some a"
    by (simp add: field_get_def)
  moreover from l assms have "rows s (field s ! nat r) ! nat c \<in> set (rows s (field s ! nat r))"
    by (auto simp: in_bounds_def)
  ultimately have "Some a \<in> set (rows s (field s ! nat r))" by simp
  with m assms(1) show ?thesis
    by (fastforce simp: wf_board_def)
qed

lemma field_get_set_kill [simp]: "field_get (set_kill s a v) r c = field_get s r c"
  by (simp add: field_get_def set_kill_def)

lemma field_get_set_position [simp]: "field_get (set_position s a p) r c = field_get s r c"
  by (simp add: field_get_def set_position_def)

lemma field_get_new_figure [simp]: "field_get (fst (new_figure s k c p)) r' c' = field_get s r' c'"
  by (simp add: field_get_def new_figure_def)

lemma is_path_clear_jump:
  assumes "\<bar>a2 - a1\<bar> = 2" and "\<bar>b2 - b1\<bar> = 2"
    and "field_get s ((a1 + a2) div 2) ((b1 + b2) div 2) = Inr (Some m)"
  shows "is_path_clear s a1 b1 a2 b2 = Inr (Some False)"
proof -
  from assms(1) have a: "a2 = a1 + 2 \<or> a2 = a1 - 2" by auto
  from assms(2) have b: "b2 = b1 + 2 \<or> b2 = b1 - 2" by auto
  from a b assms(3) show ?thesis
    by (auto simp: is_path_clear_def Let_def numeral_2_eq_2)
qed

section \<open>Evaluating concrete boards\<close>

text \<open>
  Concrete boards are evaluated by rewriting. The two congruence rules make the
  simplifier compute a board before it looks at what is done with it.
\<close>

lemma and_then_weak_cong: "m = m' \<Longrightarrow> and_then m f = and_then m' f"
  by simp

lemma upto_0_7: "[0..7] = [0, 1, 2, 3, 4, 5, 6, 7 :: int]"
  by code_simp

lemma replicate_8_None: "replicate 8 (None :: nat option) = [None, None, None, None, None, None, None, None]"
  by code_simp

lemma empty_board_eq:
  "empty_board =
     \<lparr>objs = (\<lambda>a. \<lparr>kind = Pawn, color = White, position = (0, 0), kill = False\<rparr>),
      next_obj = 0,
      rows = (\<lambda>a. [])(0 := replicate 8 None, 1 := replicate 8 None, 2 := replicate 8 None,
                       3 := replicate 8 None, 4 := replicate 8 None, 5 := replicate 8 None,
                       6 := replicate 8 None, 7 := replicate 8 None),
      next_row = 8, field = [0, 1, 2, 3, 4, 5, 6, 7], history = []\<rparr>"
  by (simp add: empty_board_def empty_store_def new_row_def eval_nat_numeral)

lemmas eval_simps = place_def new_figure_def field_set_def field_get_def py_index_def
  py_store_def Let_def the_board_def upto_0_7 empty_board_eq replicate_8_None new_row_def
  save_state_def board_init_def back_row_def returns_def wf_board_def on_board_def in_bounds_def
  Board_init_def setup_board_def CheckersBoard_init_def checkers_setup_board_def
  ExtendedBoard_init_def extended_setup_board_def

lemma returns_the_board: "returns r \<Longrightarrow> r = Inr (the_board r)"
  by (cases r) (simp_all add: returns_def the_board_def)

lemma check_move_empty_source:
  assumes "wf_board s" and "on_board step1" and "on_board step2"
    and "field_get s (fst step1) (snd step1) = Inr None"
  shows "check_move s step1 step2 = Inr False"
proof -
  obtain a2 b2 where s2: "step2 = (a2, b2)" by (cases step2)
  with assms obtain t where "field_get s a2 b2 = Inr t"
    using field_get_wf [of s a2 b2] by (auto simp: on_board_def)
  with assms s2 show ?thesis
    by (cases step1) (simp add: check_move_def)
qed

lemma checkers_check_move_empty_source:
  assumes "field_get s (fst step1) (snd step1) = Inr None"
  shows "checkers_check_move s step1 step2 = Inr False"
  using assms by (cases step1; cases step2) (simp add: checkers_check_move_def)

lemma play_move_rejected:
  assumes "moves g = m0 # m1 # ms" and "board_check_move (variant g) (board g) m0 m1 = Inr False"
  shows "play_move g = Inr (g\<lparr>moves := []\<rparr>)"
  using assms by (simp add: play_move_def py_index_def)

lemma returns_with_weak_cong: "r = r' \<Longrightarrow> returns_with r P = returns_with r' P"
  by simp

lemma returns_with_Inr [simp]: "returns_with (Inr v) P = P v"
  by (simp add: returns_with_def)

lemma returns_with_Inl [simp]: "returns_with (Inl e) P = False"
  by (simp add: returns_with_def)

lemma returns_withD: "returns_with r P \<Longrightarrow> \<exists>v. r = Inr v \<and> P v"
  by (cases r) simp_all

lemma returns_with_the_board: "returns_with r P \<Longrightarrow> r = Inr (the_board r) \<and> P (the_board r)"
  by (cases r) (simp_all add: the_board_def)

lemma returns_with_the_game: "returns_with r P \<Longrightarrow> r = Inr (the_game r) \<and> P (the_game r)"
  by (cases r) (simp_all add: the_game_def)

lemmas eval_congs = and_then_weak_cong prod.case_cong_weak returns_with_weak_cong

lemma ExtendedBoard_init_men:
  "returns_with ExtendedBoard_init (\<lambda>s.
     wf_board s \<and> holds_man s (5, 2) \<and> holds_man s (5, 5)
     \<and> holds_man s (2, 2) \<and> holds_man s (2, 5))"
  by (simp add: holds_man_def eval_simps cong: eval_congs)

lemma new_chess_game:
  "returns_with (Game_init Chess True) (\<lambda>g.
     wf_board (board g) \<and> field_get (board g) 3 3 = Inr None \<and> variant g = Chess)"
  by (simp add: Game_init_def eval_simps cong: eval_congs)

lemmas eval_more = make_move_def undo_move_def snapshot_get_def figure_at_def set_position_def
  set_kill_def count_men_def

lemmas eval_game_over = is_game_over_def all_cells_def king_verdict_def isinstance_King_def
  isinstance_standard_def isinstance_chess_def truthy_def is_path_clear_def get_possible_moves_def
  King_get_possible_moves_def CheckersFigure_get_possible_moves_def
  checkers_is_game_over_def checkers_check_move_def lone_king_position_def lone_man_position_def

section \<open>Leapers and sliders\<close>

text \<open>
  Claim C1. Whenever the source cell holds a Knight or a Ghost and the target cell is in
  the candidate list of that figure, \<open>check_move\<close> returns True: the statement holds
  of every board, so of every occupancy of the cells in between. And whenever
  \<open>check_move\<close> returns True, the target is in the candidate list of the source
  figure (the two diagonal cells when the Pawn override applies), and, for a figure that
  is neither a Knight nor a Ghost, \<open>is_path_clear\<close> has returned True.
\<close>

theorem check_move_leapers_and_sliders:
  "(field_get s a1 b1 = Inr (Some f) \<and> field_get s a2 b2 = Inr enemy
      \<and> (kind (objs s f) = Knight \<or> kind (objs s f) = Ghost)
      \<and> (a2, b2) \<in> set (get_possible_moves (objs s f))
    \<longrightarrow> check_move s (a1, b1) (a2, b2) = Inr True)
   \<and> (check_move s (a1, b1) (a2, b2) = Inr True
    \<longrightarrow> (\<exists>f enemy. field_get s a1 b1 = Inr (Some f) \<and> field_get s a2 b2 = Inr enemy
          \<and> (a2, b2) \<in> set (move_targets s (objs s f) enemy a1 b1)
          \<and> (kind (objs s f) \<noteq> Knight \<and> kind (objs s f) \<noteq> Ghost
               \<longrightarrow> is_path_clear s a1 b1 a2 b2 = Inr (Some True))))"
proof (intro conjI impI)
  assume h: "field_get s a1 b1 = Inr (Some f) \<and> field_get s a2 b2 = Inr enemy
      \<and> (kind (objs s f) = Knight \<or> kind (objs s f) = Ghost)
      \<and> (a2, b2) \<in> set (get_possible_moves (objs s f))"
  then have "move_targets s (objs s f) enemy a1 b1 = get_possible_moves (objs s f)"
    by (auto simp: move_targets_def)
  with h show "check_move s (a1, b1) (a2, b2) = Inr True"
    by (auto simp: check_move_def isinstance_chess_def)
next
  assume h: "check_move s (a1, b1) (a2, b2) = Inr True"
  then obtain figure where fg: "field_get s a1 b1 = Inr figure"
    by (auto simp: check_move_def and_then_eq_Inr)
  from h fg obtain enemy where en: "field_get s a2 b2 = Inr enemy"
    by (auto simp: check_move_def and_then_eq_Inr)
  from h fg en obtain f where f: "figure = Some f"
    by (cases figure) (auto simp: check_move_def)
  from h fg en f have tg: "(a2, b2) \<in> set (move_targets s (objs s f) enemy a1 b1)"
    by (auto simp: check_move_def split: if_splits)
  from h fg en f tg have "kind (objs s f) \<noteq> Knight \<and> kind (objs s f) \<noteq> Ghost
               \<longrightarrow> is_path_clear s a1 b1 a2 b2 = Inr (Some True)"
    by (auto simp: check_move_def and_then_eq_Inr truthy_def split: if_splits)
  with fg en f tg show "\<exists>f enemy. field_get s a1 b1 = Inr (Some f) \<and> field_get s a2 b2 = Inr enemy
          \<and> (a2, b2) \<in> set (move_targets s (objs s f) enemy a1 b1)
          \<and> (kind (objs s f) \<noteq> Knight \<and> kind (objs s f) \<noteq> Ghost
               \<longrightarrow> is_path_clear s a1 b1 a2 b2 = Inr (Some True))"
    by blast
qed

text \<open>
  In \<open>knight_position\<close> the Knight at (7, 1) jumps to (5, 2) over its own Pawns, and the
  Queen at (7, 3) reaches the free neighbour (7, 2) with a clear path.
\<close>

theorem check_move_leapers_and_sliders_witness:
  "check_move knight_position (7, 1) (5, 2) = Inr True
   \<and> field_get knight_position 6 1 = Inr (Some 1)
   \<and> field_get knight_position 6 2 = Inr (Some 2)
   \<and> check_move knight_position (7, 3) (7, 2) = Inr True
   \<and> kind (objs knight_position 3) = Queen
   \<and> is_path_clear knight_position 7 3 7 2 = Inr (Some True)"
proof -
  have a: "field_get knight_position 7 1 = Inr (Some 0)"
    by code_simp
  have b: "field_get knight_position 5 2 = Inr None"
    by code_simp
  have c: "kind (objs knight_position 0) = Knight"
    by code_simp
  have d: "(5, 2) \<in> set (get_possible_moves (objs knight_position 0))"
    by code_simp
  have e: "check_move knight_position (7, 3) (7, 2) = Inr True"
    by code_simp
  have g: "field_get knight_position 7 3 = Inr (Some 3)"
    by code_simp
  have h: "kind (objs knight_position 3) = Queen"
    by code_simp
  have i: "field_get knight_position 6 1 = Inr (Some 1)"
    by code_simp
  have j: "field_get knight_position 6 2 = Inr (Some 2)"
    by code_simp
  from check_move_leapers_and_sliders [of knight_position 7 1 0 5 2 None] a b c d
  have first: "check_move knight_position (7, 1) (5, 2) = Inr True"
    by simp
  from check_move_leapers_and_sliders [of knight_position 7 3 _ 7 2 _] e g h
  have "is_path_clear knight_position 7 3 7 2 = Inr (Some True)"
    by auto
  with first e h i j show ?thesis
    by simp
qed

section \<open>Pawn capture\<close>

lemma is_path_clear_diagonal_step:
  "\<bar>a2 - a1\<bar> = 1 \<Longrightarrow> \<bar>b2 - b1\<bar> = 1 \<Longrightarrow> is_path_clear s a1 b1 a2 b2 = Inr (Some True)"
  by (auto simp: is_path_clear_def Let_def)

text \<open>
  What the override does for the classes it lists. When the source cell holds a Pawn and
  the target cell holds a figure of the other colour and of one of the eight classes
  Pawn, Rook, Bishop, Knight, King, Queen, Ghost, Snake, the candidate list is exactly
  the two diagonal cells in front of the source cell (row - 1 for White, row + 1 for
  Black), and \<open>check_move\<close> accepts the move exactly when the target is one of the
  two.
\<close>

theorem pawn_capture_override:
  assumes "field_get s a1 b1 = Inr (Some f)" and "kind (objs s f) = Pawn"
    and "field_get s a2 b2 = Inr (Some e)" and "isinstance_chess (kind (objs s e))"
    and "color (objs s e) \<noteq> color (objs s f)"
  shows "move_targets s (objs s f) (Some e) a1 b1 =
           (if color (objs s f) = White then [(a1 - 1, b1 + 1), (a1 - 1, b1 - 1)]
            else [(a1 + 1, b1 + 1), (a1 + 1, b1 - 1)])
         \<and> check_move s (a1, b1) (a2, b2) =
             Inr (if color (objs s f) = White then a2 = a1 - 1 \<and> (b2 = b1 + 1 \<or> b2 = b1 - 1)
                  else a2 = a1 + 1 \<and> (b2 = b1 + 1 \<or> b2 = b1 - 1))"
proof -
  have t: "move_targets s (objs s f) (Some e) a1 b1 =
           (if color (objs s f) = White then [(a1 - 1, b1 + 1), (a1 - 1, b1 - 1)]
            else [(a1 + 1, b1 + 1), (a1 + 1, b1 - 1)])"
    using assms by (auto simp: move_targets_def)
  have c: "check_move s (a1, b1) (a2, b2) =
             Inr (if color (objs s f) = White then a2 = a1 - 1 \<and> (b2 = b1 + 1 \<or> b2 = b1 - 1)
                  else a2 = a1 + 1 \<and> (b2 = b1 + 1 \<or> b2 = b1 - 1))"
    using assms
    by (auto simp: check_move_def t isinstance_chess_def is_path_clear_diagonal_step truthy_def)
  from t c show ?thesis by simp
qed

text \<open>The white Pawn at (6, 4) takes the black Rook at (5, 3) and may not step onto the
  black Pawn at (5, 4).\<close>

theorem pawn_capture_override_example:
  "check_move pawn_position (6, 4) (5, 3) = Inr True
   \<and> check_move pawn_position (6, 4) (5, 4) = Inr False"
proof -
  have a: "field_get pawn_position 6 4 = Inr (Some 0)" by code_simp
  have b: "kind (objs pawn_position 0) = Pawn" by code_simp
  have c: "field_get pawn_position 5 3 = Inr (Some 1)" by code_simp
  have d: "isinstance_chess (kind (objs pawn_position 1))" by code_simp
  have e: "color (objs pawn_position 1) \<noteq> color (objs pawn_position 0)" by code_simp
  have f: "field_get pawn_position 5 4 = Inr (Some 2)" by code_simp
  have g: "isinstance_chess (kind (objs pawn_position 2))" by code_simp
  have h: "color (objs pawn_position 2) \<noteq> color (objs pawn_position 0)" by code_simp
  have w: "color (objs pawn_position 0) = White" by code_simp
  from pawn_capture_override [OF a b c d e] w
  have "check_move pawn_position (6, 4) (5, 3) = Inr True" by simp
  moreover from pawn_capture_override [OF a b f g h] w
  have "check_move pawn_position (6, 4) (5, 4) = Inr False" by simp
  ultimately show ?thesis by simp
qed

text \<open>
  What it does for a checkers man, on every board: the class tuple of line 504 does not
  list \<^verbatim>\<open>CheckersFigure\<close>, so with a man in the target cell the candidate list of
  the Pawn stays its straight-ahead list, whatever the colours.
\<close>

lemma pawn_facing_man_keeps_candidates:
  assumes "kind (objs s f) = Pawn" and "kind (objs s e) = CheckersFigure"
  shows "move_targets s (objs s f) (Some e) a1 b1 = get_possible_moves (objs s f)"
  using assms by (simp add: move_targets_def isinstance_chess_def)

lemma pawn_facing_man_check_move:
  assumes "field_get s a1 b1 = Inr (Some f)" and "kind (objs s f) = Pawn"
    and "field_get s a2 b2 = Inr (Some e)" and "kind (objs s e) = CheckersFigure"
  shows "check_move s (a1, b1) (a2, b2) =
           (if (a2, b2) \<in> set (Pawn_get_possible_moves (objs s f))
            then and_then (is_path_clear s a1 b1 a2 b2) (\<lambda>r. Inr (truthy r))
            else Inr False)"
  using assms
  by (simp add: check_move_def isinstance_chess_def pawn_facing_man_keeps_candidates
      get_possible_moves_def)

lemmas eval_pawn = check_move_def move_targets_def get_possible_moves_def
  Pawn_get_possible_moves_def pawn_filter.simps isinstance_chess_def is_path_clear_def
  truthy_def pawn_checkers_position_def

text \<open>
  Claim C2 fails on the code. The claim: whenever the target cell holds an opposing
  piece, a Pawn is checked against exactly its two forward diagonal cells, so that a
  white Pawn at (6, 4) takes an enemy at (5, 3) and may not step straight onto an enemy
  at (5, 4). With black checkers men as the enemies, \<open>check_move\<close> refuses the
  capture at (5, 3) and accepts the straight step onto (5, 4). The same in play:
  \<^verbatim>\<open>ExtendedBoard()\<close>, the white Pawn of column 3 moved to (4, 3) and then to
  (3, 3), both moves accepted, may not take the black man at (2, 2).
\<close>

theorem pawn_capture_misses_checkers_man:
  "figure_at pawn_checkers_position 6 4 = Some \<lparr>kind = Pawn, color = White, position = (6, 4), kill = False\<rparr>
   \<and> figure_at pawn_checkers_position 5 3 = Some \<lparr>kind = CheckersFigure, color = Black, position = (5, 3), kill = False\<rparr>
   \<and> figure_at pawn_checkers_position 5 4 = Some \<lparr>kind = CheckersFigure, color = Black, position = (5, 4), kill = False\<rparr>
   \<and> check_move pawn_checkers_position (6, 4) (5, 3) = Inr False
   \<and> check_move pawn_checkers_position (6, 4) (5, 4) = Inr True
   \<and> returns_with ExtendedBoard_init (\<lambda>s0.
         check_move s0 (6, 3) (4, 3) = Inr True
         \<and> returns_with (make_move s0 (6, 3) (4, 3)) (\<lambda>s1.
               check_move s1 (4, 3) (3, 3) = Inr True
               \<and> returns_with (make_move s1 (4, 3) (3, 3)) (\<lambda>s2.
                     figure_at s2 3 3 = Some \<lparr>kind = Pawn, color = White, position = (3, 3), kill = False\<rparr>
                     \<and> figure_at s2 2 2 = Some \<lparr>kind = CheckersFigure, color = Black, position = (2, 2), kill = False\<rparr>
                     \<and> check_move s2 (3, 3) (2, 2) = Inr False)))"
  by (simp add: eval_simps eval_more eval_pawn cong: eval_congs)

section \<open>Castling\<close>

text \<open>
  Claim C8. On every board whose cell (0, 4) holds a white King and whose cell (0, 7)
  holds a white Rook, with (0, 5) and (0, 6) empty, \<open>if_rock_possible\<close> returns True
  for White, and \<open>rock\<close> returns a board with the King in (0, 6), the Rook in
  (0, 5), and (0, 4) and (0, 7) empty. The objects themselves are left as they were.
\<close>

theorem castle_white:
  assumes k: "field_get s 0 4 = Inr (Some k)" and kk: "kind (objs s k) = King" and kc: "color (objs s k) = White"
    and r: "field_get s 0 7 = Inr (Some r)" and rk: "kind (objs s r) = Rook" and rc: "color (objs s r) = White"
    and e5: "field_get s 0 5 = Inr None" and e6: "field_get s 0 6 = Inr None"
  shows "if_rock_possible s White = Inr True
         \<and> (\<exists>s'. rock s White = Inr s'
               \<and> field_get s' 0 6 = Inr (Some k) \<and> field_get s' 0 5 = Inr (Some r)
               \<and> field_get s' 0 4 = Inr None \<and> field_get s' 0 7 = Inr None
               \<and> objs s' = objs s)"
proof -
  have "is_path_clear s 0 4 0 7 = Inr (Some True)"
    using e5 e6 by (simp add: is_path_clear_def)
  then have can: "if_rock_possible s White = Inr True"
    using k kk kc r rk rc
    by (simp add: if_rock_possible_def rock_possible_on_def isinstance_King_def truthy_def)
  obtain s1 where s1: "field_set s 0 6 (Some k) = Inr s1"
    using field_set_succeeds [OF e6] by blast
  have s1_4: "field_get s1 0 4 = Inr (Some k)"
    using field_get_set_other_col [OF s1, of 4 0] k by simp
  obtain s2 where s2: "field_set s1 0 4 None = Inr s2"
    using field_set_succeeds [OF s1_4] by blast
  have s2_7: "field_get s2 0 7 = Inr (Some r)"
    using field_get_set_other_col [OF s2, of 7 0] field_get_set_other_col [OF s1, of 7 0] r by simp
  have s2_5: "field_get s2 0 5 = Inr None"
    using field_get_set_other_col [OF s2, of 5 0] field_get_set_other_col [OF s1, of 5 0] e5 by simp
  obtain s3 where s3: "field_set s2 0 5 (Some r) = Inr s3"
    using field_set_succeeds [OF s2_5] by blast
  have s3_7: "field_get s3 0 7 = Inr (Some r)"
    using field_get_set_other_col [OF s3, of 7 0] s2_7 by simp
  obtain s4 where s4: "field_set s3 0 7 None = Inr s4"
    using field_set_succeeds [OF s3_7] by blast
  have run: "rock s White = Inr s4"
    using k s1 s2 s2_7 s3 s4 by (simp add: rock_def rock_on_def)
  have c6: "field_get s4 0 6 = Inr (Some k)"
    using field_get_set_same [OF s1] field_get_set_other_col [OF s2, of 6 0]
      field_get_set_other_col [OF s3, of 6 0] field_get_set_other_col [OF s4, of 6 0] by simp
  have c5: "field_get s4 0 5 = Inr (Some r)"
    using field_get_set_same [OF s3] field_get_set_other_col [OF s4, of 5 0] by simp
  have c4: "field_get s4 0 4 = Inr None"
    using field_get_set_same [OF s2] field_get_set_other_col [OF s3, of 4 0]
      field_get_set_other_col [OF s4, of 4 0] by simp
  have c7: "field_get s4 0 7 = Inr None"
    using field_get_set_same [OF s4] by simp
  have o: "objs s4 = objs s"
    using field_set_frame [OF s1] field_set_frame [OF s2] field_set_frame [OF s3]
      field_set_frame [OF s4] by simp
  from can run c6 c5 c4 c7 o show ?thesis by simp
qed

text \<open>The position \<open>castle_position\<close> satisfies the hypotheses.\<close>

theorem castle_white_witness:
  "if_rock_possible castle_position White = Inr True
   \<and> (\<exists>s'. rock castle_position White = Inr s'
         \<and> field_get s' 0 6 = Inr (Some 0) \<and> field_get s' 0 5 = Inr (Some 1)
         \<and> field_get s' 0 4 = Inr None \<and> field_get s' 0 7 = Inr None
         \<and> objs s' = objs castle_position)"
proof -
  have a: "field_get castle_position 0 4 = Inr (Some 0)" by code_simp
  have b: "kind (objs castle_position 0) = King" by code_simp
  have c: "color (objs castle_position 0) = White" by code_simp
  have d: "field_get castle_position 0 7 = Inr (Some 1)" by code_simp
  have e: "kind (objs castle_position 1) = Rook" by code_simp
  have f: "color (objs castle_position 1) = White" by code_simp
  have g: "field_get castle_position 0 5 = Inr None" by code_simp
  have h: "field_get castle_position 0 6 = Inr None" by code_simp
  from castle_white [OF a b c d e f g h] show ?thesis .
qed

section \<open>The checkers jump\<close>

text \<open>
  Claim C6. On every well-formed board of \<^verbatim>\<open>CheckersBoard\<close>, for a checkers man in
  the source cell and a target cell two rows and two columns away, with the cell between
  them occupied: \<open>checkers_check_move\<close> returns True, and \<open>checkers_make_move\<close>
  returns a board whose middle cell is empty and on which the \<^verbatim>\<open>kill\<close> flag of the
  man that moved is set. (When the jump ends on the promotion row the target cell holds
  a new Bishop object; the flag of the man itself is set all the same.)
\<close>

theorem checkers_jump:
  assumes wf: "wf_board s" and src: "in_bounds a1 b1" and tgt: "in_bounds a2 b2"
    and fig: "field_get s a1 b1 = Inr (Some f)" and man: "kind (objs s f) = CheckersFigure"
    and da: "\<bar>a2 - a1\<bar> = 2" and db: "\<bar>b2 - b1\<bar> = 2"
    and mid: "field_get s ((a1 + a2) div 2) ((b1 + b2) div 2) = Inr (Some m)"
  shows "checkers_check_move s (a1, b1) (a2, b2) = Inr True
         \<and> (\<exists>s'. checkers_make_move s (a1, b1) (a2, b2) = Inr s'
               \<and> field_get s' ((a1 + a2) div 2) ((b1 + b2) div 2) = Inr None
               \<and> kill (objs s' f))"
proof -
  define mx where "mx = (a1 + a2) div 2"
  define my where "my = (b1 + b2) div 2"
  have pc: "is_path_clear s a1 b1 a2 b2 = Inr (Some False)"
    using is_path_clear_jump [OF da db mid] .
  have chk: "checkers_check_move s (a1, b1) (a2, b2) = Inr True"
    using fig man da db pc by (simp add: checkers_check_move_def truthy_def)
  have cols: "0 \<le> b1" "0 \<le> b2" "0 \<le> my" "my \<noteq> b1" "my \<noteq> b2"
    using src tgt db by (auto simp: in_bounds_def my_def)
  have mid': "field_get (set_kill s f True) mx my = Inr (Some m)"
    using mid by (simp add: mx_def my_def)
  obtain s1 where s1: "field_set (set_kill s f True) mx my None = Inr s1"
    using field_set_succeeds [OF mid'] by blast
  obtain t where t: "field_get s a2 b2 = Inr t"
    using field_get_wf [OF wf tgt] by blast
  have t1: "field_get s1 a2 b2 = Inr t"
    using field_get_set_other_col [OF s1 cols(3) cols(2) cols(5), of a2] t by simp
  obtain s2 where s2: "field_set s1 a2 b2 (Some f) = Inr s2"
    using field_set_succeeds [OF t1] by blast
  have f2: "field_get (set_position s2 f (a2, b2)) a1 b1 = Inr (Some f)"
    using field_get_set_other_col [OF s2 cols(2) cols(1), of a1]
      field_get_set_other_col [OF s1 cols(3) cols(1) cols(4), of a1] fig db by simp
  obtain s3 where s3: "field_set (set_position s2 f (a2, b2)) a1 b1 None = Inr s3"
    using field_set_succeeds [OF f2] by blast
  have m3: "field_get s3 mx my = Inr None"
    using field_get_set_same [OF s1]
      field_get_set_other_col [OF s2 cols(2) cols(3), of mx]
      field_get_set_other_col [OF s3 cols(1) cols(3), of mx] cols by simp
  have o3: "objs s3 = (objs s)(f := (objs s f)\<lparr>kill := True, position := (a2, b2)\<rparr>)"
    using field_set_frame [OF s1] field_set_frame [OF s2] field_set_frame [OF s3]
    by (simp add: set_kill_def set_position_def)
  have n3: "next_obj s3 = next_obj s"
    using field_set_frame [OF s1] field_set_frame [OF s2] field_set_frame [OF s3]
    by (simp add: set_kill_def set_position_def)
  have k3: "kill (objs s3 f)"
    by (simp add: o3)
  have fresh: "f < next_obj s"
    using field_get_allocated [OF wf src fig] .
  have t3: "field_get s3 a2 b2 = Inr (Some f)"
    using field_get_set_same [OF s2]
      field_get_set_other_col [OF s3 cols(1) cols(2), of a2] db by simp
  let ?promote = "(color (objs s3 f) = White \<and> a2 = 0) \<or> (color (objs s3 f) = Black \<and> a2 = 7)"
  have run: "checkers_make_move s (a1, b1) (a2, b2) =
               (if ?promote then place a2 b2 Bishop (color (objs s3 f)) (a2, b2) s3 else Inr s3)"
    using fig pc man s1 s2 s3
    by (simp add: checkers_make_move_def truthy_def mx_def my_def Let_def)
  show ?thesis
  proof (cases ?promote)
    case False
    with run m3 k3 chk show ?thesis
      by (simp add: mx_def my_def)
  next
    case True
    have t3': "field_get (fst (new_figure s3 Bishop (color (objs s3 f)) (a2, b2))) a2 b2 = Inr (Some f)"
      using t3 by simp
    obtain s4 where s4: "field_set (fst (new_figure s3 Bishop (color (objs s3 f)) (a2, b2))) a2 b2
                           (Some (next_obj s3)) = Inr s4"
      using field_set_succeeds [OF t3'] by blast
    have p: "place a2 b2 Bishop (color (objs s3 f)) (a2, b2) s3 = Inr s4"
      using s4 by (simp add: place_def new_figure_def)
    have m4: "field_get s4 mx my = Inr None"
      using field_get_set_other_col [OF s4 cols(2) cols(3), of mx] m3 cols by simp
    have k4: "kill (objs s4 f)"
      using field_set_frame [OF s4] k3 fresh n3 by (simp add: new_figure_def)
    from run True p m4 k4 chk show ?thesis
      by (simp add: mx_def my_def)
  qed
qed

text \<open>The white man at (2, 3) jumps over the black man at (3, 4) to (4, 5).\<close>

theorem checkers_jump_witness:
  "checkers_check_move jump_position (2, 3) (4, 5) = Inr True
   \<and> (\<exists>s'. checkers_make_move jump_position (2, 3) (4, 5) = Inr s'
         \<and> field_get s' 3 4 = Inr None \<and> kill (objs s' 0))"
proof -
  have a: "wf_board jump_position" by code_simp
  have b: "in_bounds 2 3" by code_simp
  have c: "in_bounds 4 5" by code_simp
  have d: "field_get jump_position 2 3 = Inr (Some 0)" by code_simp
  have e: "kind (objs jump_position 0) = CheckersFigure" by code_simp
  have f: "\<bar>4 - 2 :: int\<bar> = 2" by simp
  have g: "\<bar>5 - 3 :: int\<bar> = 2" by simp
  have h: "field_get jump_position ((2 + 4) div 2) ((3 + 5) div 2) = Inr (Some 1)" by code_simp
  have i: "field_get jump_position 4 5 = Inr None" by code_simp
  from checkers_jump [OF a b c d e f g h] show ?thesis by simp
qed

section \<open>A rejected move\<close>

text \<open>
  Claim C9. On a well-formed board and for cells of the board, \<^verbatim>\<open>check_move\<close> of
  either board class returns False, and does not raise, when the source cell is empty.
  And whenever the check of the two cells in \<^verbatim>\<open>self.moves\<close> returns False, the pass
  of \<^verbatim>\<open>Game.play\<close> returns the game as it was but for the emptied move list: the
  same board, the same player.
\<close>

theorem rejected_move_changes_nothing:
  "(wf_board s \<and> on_board step1 \<and> on_board step2
      \<and> field_get s (fst step1) (snd step1) = Inr None
    \<longrightarrow> board_check_move v s step1 step2 = Inr False)
   \<and> (moves g = m0 # m1 # ms \<and> board_check_move (variant g) (board g) m0 m1 = Inr False
    \<longrightarrow> play_move g = Inr (g\<lparr>moves := []\<rparr>)
        \<and> board (g\<lparr>moves := []\<rparr>) = board g
        \<and> current_player (g\<lparr>moves := []\<rparr>) = current_player g)"
  using check_move_empty_source [of s step1 step2]
    checkers_check_move_empty_source [of s step1 step2]
    play_move_rejected [of g m0 m1 ms]
  by (cases v) (auto simp: board_check_move_def)

text \<open>In a new game of chess the cell (3, 3) is empty; a move from there is rejected
  and leaves the game as it was.\<close>

theorem rejected_move_changes_nothing_witness:
  "board_check_move Chess (board empty_source_game) (3, 3) (4, 4) = Inr False
   \<and> play_move empty_source_game = Inr (empty_source_game\<lparr>moves := []\<rparr>)"
proof -
  from returns_with_the_game [OF new_chess_game]
  have a: "wf_board (board empty_source_game)"
    and d: "field_get (board empty_source_game) (fst (3, 3)) (snd (3, 3)) = Inr None"
    and f: "variant empty_source_game = Chess"
    by (simp_all add: empty_source_game_def)
  have b: "on_board (3, 3)" by code_simp
  have c: "on_board (4, 4)" by code_simp
  have e: "moves empty_source_game = [(3, 3), (4, 4)]"
    by (simp add: empty_source_game_def)
  have rejected: "board_check_move Chess (board empty_source_game) (3, 3) (4, 4) = Inr False"
    using rejected_move_changes_nothing [of "board empty_source_game" "(3, 3)" "(4, 4)" Chess]
      a b c d by blast
  have "play_move empty_source_game = Inr (empty_source_game\<lparr>moves := []\<rparr>)"
    using rejected_move_changes_nothing [of _ _ _ _ empty_source_game "(3, 3)" "(4, 4)" "[]"]
      e f rejected by simp
  with rejected show ?thesis by simp
qed

section \<open>Checkers men on the boards of chess\<close>

text \<open>
  Claim C10. On a well-formed board and for cells of the board, \<^verbatim>\<open>Board.check_move\<close>
  returns False whenever the source cell holds a checkers man. \<^verbatim>\<open>ExtendedBoard()\<close>
  returns a well-formed board with checkers men at (5, 2), (5, 5), (2, 2) and (2, 5),
  and no move of a checkers man is accepted on it.
\<close>

theorem checkers_man_never_moves_on_Board:
  "(wf_board s \<and> on_board step1 \<and> on_board step2 \<and> holds_man s step1
    \<longrightarrow> check_move s step1 step2 = Inr False)
   \<and> (\<exists>s0. ExtendedBoard_init = Inr s0 \<and> wf_board s0
         \<and> holds_man s0 (5, 2) \<and> holds_man s0 (5, 5)
         \<and> holds_man s0 (2, 2) \<and> holds_man s0 (2, 5)
         \<and> (\<forall>step1 step2.
               on_board step1 \<and> on_board step2 \<and> holds_man s0 step1
               \<longrightarrow> check_move s0 step1 step2 = Inr False))"
proof -
  have general: "check_move s step1 step2 = Inr False"
    if "wf_board s" "on_board step1" "on_board step2" "holds_man s step1"
    for s step1 step2
  proof -
    obtain a2 b2 where s2: "step2 = (a2, b2)" by (cases step2)
    with that obtain t where t: "field_get s a2 b2 = Inr t"
      using field_get_wf [of s a2 b2] by (auto simp: on_board_def)
    from that(4) obtain f where "field_get s (fst step1) (snd step1) = Inr (Some f)"
      and "kind (objs s f) = CheckersFigure"
      by (auto simp: holds_man_def split: sum.splits option.splits)
    with t s2 show ?thesis
      by (cases step1) (simp add: check_move_def isinstance_chess_def)
  qed
  from returns_withD [OF ExtendedBoard_init_men]
  obtain s0 where s0: "ExtendedBoard_init = Inr s0" "wf_board s0"
    "holds_man s0 (5, 2)" "holds_man s0 (5, 5)" "holds_man s0 (2, 2)" "holds_man s0 (2, 5)"
    by blast
  from general s0(2) have "\<forall>step1 step2.
      on_board step1 \<and> on_board step2 \<and> holds_man s0 step1
      \<longrightarrow> check_move s0 step1 step2 = Inr False"
    by blast
  with s0 have "\<exists>s0. ExtendedBoard_init = Inr s0 \<and> wf_board s0
         \<and> holds_man s0 (5, 2) \<and> holds_man s0 (5, 5)
         \<and> holds_man s0 (2, 2) \<and> holds_man s0 (2, 5)
         \<and> (\<forall>step1 step2.
               on_board step1 \<and> on_board step2 \<and> holds_man s0 step1
               \<longrightarrow> check_move s0 step1 step2 = Inr False)"
    by blast
  moreover have "wf_board s \<and> on_board step1 \<and> on_board step2 \<and> holds_man s step1
    \<longrightarrow> check_move s step1 step2 = Inr False"
    using general by blast
  ultimately show ?thesis by blast
qed

text \<open>The man at (5, 2) of the new extended board may not take either of its two
  diagonal steps.\<close>

theorem checkers_man_never_moves_on_Board_witness:
  "check_move (the_board ExtendedBoard_init) (5, 2) (4, 3) = Inr False
   \<and> check_move (the_board ExtendedBoard_init) (5, 2) (4, 1) = Inr False"
proof -
  from returns_with_the_board [OF ExtendedBoard_init_men]
  have a: "wf_board (the_board ExtendedBoard_init)"
    and d: "holds_man (the_board ExtendedBoard_init) (5, 2)"
    by simp_all
  have b: "on_board (5, 2)" by code_simp
  have c: "on_board (4, 3)" by code_simp
  have c': "on_board (4, 1)" by code_simp
  have "check_move (the_board ExtendedBoard_init) (5, 2) (4, 3) = Inr False"
    using checkers_man_never_moves_on_Board [of "the_board ExtendedBoard_init" "(5, 2)" "(4, 3)"]
      a b c d by blast
  moreover have "check_move (the_board ExtendedBoard_init) (5, 2) (4, 1) = Inr False"
    using checkers_man_never_moves_on_Board [of "the_board ExtendedBoard_init" "(5, 2)" "(4, 1)"]
      a b c' d by blast
  ultimately show ?thesis by simp
qed

section \<open>Snapshots and the live grid\<close>

text \<open>
  Claim C3 fails on the code. \<^verbatim>\<open>Board()\<close>, then \<^verbatim>\<open>make_move((6, 4), (4, 4))\<close>:
  the first snapshot still holds the Pawn object in (6, 4), and the stored position of
  that object is now (4, 4), since \<^verbatim>\<open>save_state\<close> copies the rows and not the
  objects. Then \<^verbatim>\<open>undo_move()\<close>: the grid is the first snapshot itself. Then
  \<^verbatim>\<open>make_move((6, 0), (5, 0))\<close>: in the first snapshot the cell (6, 0) is now
  empty and (5, 0) holds the Pawn.
\<close>

theorem undo_aliases_snapshot:
  "returns_with Board_init (\<lambda>s0.
     snapshot_get s0 0 6 0 = Inr (Some 1) \<and> snapshot_get s0 0 5 0 = Inr None
     \<and> snapshot_get s0 0 6 4 = Inr (Some 9) \<and> position (objs s0 9) = (6, 4)
     \<and> returns_with (make_move s0 (6, 4) (4, 4)) (\<lambda>s1.
           snapshot_get s1 0 6 4 = Inr (Some 9) \<and> position (objs s1 9) = (4, 4)
           \<and> field (undo_move s1) = last (history (undo_move s1))
           \<and> returns_with (make_move (undo_move s1) (6, 0) (5, 0)) (\<lambda>s3.
                 snapshot_get s3 0 6 0 = Inr None \<and> snapshot_get s3 0 5 0 = Inr (Some 1))))"
  by (simp add: eval_simps eval_more cong: eval_congs)

section \<open>Stored positions\<close>

text \<open>
  Claim C4 fails on the code. On the board \<^verbatim>\<open>CheckersBoard()\<close> returns, each of the
  four white men in row 7 has a stored position in row 6: the constructor call of line
  664 passes \<^verbatim>\<open>(6, col)\<close> for the figure it puts into \<^verbatim>\<open>self.field[7][col]\<close>.
\<close>

theorem checkers_setup_wrong_position:
  "returns_with CheckersBoard_init (\<lambda>s.
     figure_at s 7 0 = Some \<lparr>kind = CheckersFigure, color = White, position = (6, 0), kill = False\<rparr>
     \<and> figure_at s 7 2 = Some \<lparr>kind = CheckersFigure, color = White, position = (6, 2), kill = False\<rparr>
     \<and> figure_at s 7 4 = Some \<lparr>kind = CheckersFigure, color = White, position = (6, 4), kill = False\<rparr>
     \<and> figure_at s 7 6 = Some \<lparr>kind = CheckersFigure, color = White, position = (6, 6), kill = False\<rparr>)"
  by (simp add: eval_simps eval_more cong: eval_congs)

section \<open>A missing king\<close>

text \<open>
  Claim C5 fails on the code. With a white King alone on the board, no black king is
  found, and the second loop of \<^verbatim>\<open>Board.is_game_over\<close> subscripts
  \<^verbatim>\<open>black_king_position\<close>, which is \<^verbatim>\<open>None\<close>, when it reaches the white King:
  the call raises \<^verbatim>\<open>TypeError\<close>. The same happens on the board of \<^verbatim>\<open>Board()\<close>
  once the black King is taken from (0, 4).
\<close>

theorem is_game_over_faults_without_king:
  "figure_at lone_king_position 7 4 = Some \<lparr>kind = King, color = White, position = (7, 4), kill = False\<rparr>
   \<and> find_kings lone_king_position all_cells None None = Inr (None, Some (7, 4))
   \<and> is_game_over lone_king_position = Inl TypeError
   \<and> returns_with Board_init (\<lambda>s. returns_with (field_set s 0 4 None) (\<lambda>s'.
         is_game_over s' = Inl TypeError))"
  by (simp add: eval_simps eval_more eval_game_over cong: eval_congs)

section \<open>The end of a game of checkers\<close>

text \<open>
  Claim C7 fails on the code. With one black man alone on the board, White has no man
  left, and \<^verbatim>\<open>CheckersBoard.is_game_over\<close> returns False: the scan returns at the
  first man that has an accepted candidate move, before the two colour flags are looked
  at.
\<close>

theorem checkers_game_goes_on_without_white:
  "count_men lone_man_position White = 0 \<and> count_men lone_man_position Black = 1
   \<and> figure_at lone_man_position 3 3 = Some \<lparr>kind = CheckersFigure, color = Black, position = (3, 3), kill = False\<rparr>
   \<and> checkers_check_move lone_man_position (3, 3) (4, 4) = Inr True
   \<and> checkers_is_game_over lone_man_position = Inr False"
  by (simp add: eval_simps eval_more eval_game_over cong: eval_congs)

end
